theory Spec2Isabelle
  imports Complex_Main "HOL-Library.Sublist"
begin

section \<open>Data model\<close>

text \<open>
  The TypeScript sources compute with \<^verbatim>\<open>number\<close> values (timestamps in seconds,
  probabilities, ratios). They are modelled as exact reals: every comparison and every
  arithmetic operation of the source is the operation of the same name on \<^typ>\<open>real\<close>.
  Strings are lists of characters; a character is one code unit in the range 0..255
  (ASCII and Latin-1), and \<^verbatim>\<open>length\<close> counts code units as in the source.
\<close>

text \<open>\<^verbatim>\<open>interface WhisperWord { word; start; end; probability }\<close> (whisper.ts).
  The field \<^verbatim>\<open>end\<close> is written \<open>endt\<close>.\<close>

record whisperWord =
  word :: string
  start :: real
  endt :: real
  probability :: real

text \<open>A field of the ASR response as it arrives from JSON: missing, \<^verbatim>\<open>null\<close>, or a value.\<close>

datatype 'a field = Absent | Null | Present 'a

text \<open>\<^verbatim>\<open>interface WhisperResponse\<close>, restricted to the fields the worker reads.\<close>

record whisperResponse =
  text_r :: string
  words_r :: "whisperWord list field"
  language :: string
  duration :: real

text \<open>\<^verbatim>\<open>interface ConfidenceCluster\<close> (clustering.ts); \<^verbatim>\<open>id\<close> is written \<open>cluster_id\<close>.\<close>

record confidenceCluster =
  cluster_id :: string
  words :: "whisperWord list"
  centerTime :: real
  startTime :: real
  endTime :: real
  averageConfidence :: real
  clipStart :: real
  clipEnd :: real

text \<open>\<^verbatim>\<open>interface ClusteringOptions\<close>.\<close>

record clusteringOptions =
  confidenceThreshold :: real
  proximityThreshold :: real
  correctionWindow :: real

text \<open>\<^verbatim>\<open>interface ReconciliationResult\<close> (reconciliation.ts).\<close>

record reconciliationResult =
  success :: bool
  originalText :: string
  correctedText :: string
  levenshteinDistance :: nat
  shouldApply :: bool
  reason :: "string option"

text \<open>The element type of the \<^verbatim>\<open>corrections\<close> argument of \<^verbatim>\<open>mergeTranscript\<close>:
  \<^verbatim>\<open>{ clipStart; clipEnd; correctedText; shouldApply }\<close>. The fields carry the prefix
  \<open>c_\<close> to keep them apart from those of the two records above.\<close>

record correction =
  c_clipStart :: real
  c_clipEnd :: real
  c_correctedText :: string
  c_shouldApply :: bool

text \<open>\<^verbatim>\<open>interface MergedTranscript\<close>.\<close>

record mergedTranscript =
  text_m :: string
  appliedCorrections :: nat
  skippedCorrections :: nat

section \<open>Strings\<close>

text \<open>\<^verbatim>\<open>Array.prototype.join(' ')\<close> on a list of strings.\<close>

fun joinSpace :: "string list \<Rightarrow> string" where
  "joinSpace [] = []"
| "joinSpace [w] = w"
| "joinSpace (w # v # ws) = w @ '' '' @ joinSpace (v # ws)"

text \<open>\<^verbatim>\<open>String.prototype.includes\<close>: the needle occurs as a contiguous run.\<close>

abbreviation str_includes :: "string \<Rightarrow> string \<Rightarrow> bool" where
  "str_includes s needle \<equiv> sublist needle s"

section \<open>WhisperService.extractWords and the segment rows\<close>

text \<open>\<^verbatim>\<open>return response.words || []\<close>: an array, even an empty one, is truthy;
  \<^verbatim>\<open>undefined\<close> and \<^verbatim>\<open>null\<close> are falsy.\<close>

fun extractWords :: "whisperResponse \<Rightarrow> whisperWord list" where
  "extractWords response =
     (case words_r response of Absent \<Rightarrow> [] | Null \<Rightarrow> [] | Present ws \<Rightarrow> ws)"

text \<open>The rows the worker hands to \<^verbatim>\<open>prisma.segment.createMany\<close>.\<close>

record segmentRow =
  seg_jobId :: string
  seg_word :: string
  seg_start :: real
  seg_end :: real
  seg_confidence :: real

definition segmentRows :: "string \<Rightarrow> whisperWord list \<Rightarrow> segmentRow list" where
  "segmentRows jobId ws =
     map (\<lambda>w. \<lparr>seg_jobId = jobId, seg_word = word w, seg_start = start w,
                seg_end = endt w, seg_confidence = probability w\<rparr>) ws"

section \<open>ReconciliationService.mergeTranscript\<close>

text \<open>\<^verbatim>\<open>isPunctuation\<close>: the regular expression \<^verbatim>\<open>/^[.,!?;:'"()-]+$/\<close>, a non-empty
  string of characters of the class.\<close>

definition punctChars :: "char set" where
  "punctChars = {CHR ''.'', CHR '','', CHR ''!'', CHR ''?'', CHR '';'', CHR '':'',
                 CHR 0x27, CHR 0x22, CHR ''('', CHR '')'', CHR ''-''}"

definition isPunctuation :: "string \<Rightarrow> bool" where
  "isPunctuation w \<longleftrightarrow> w \<noteq> [] \<and> list_all (\<lambda>c. c \<in> punctChars) w"

text \<open>\<^verbatim>\<open>joinWords\<close>: the loop from index 1 appends \<^verbatim>\<open>words[i]\<close>, after a space when neither
  it nor \<^verbatim>\<open>words[i - 1]\<close> is punctuation. \<open>joinLoop prevWord rest\<close> is what the loop
  appends to \<^verbatim>\<open>result\<close> for the words \<open>rest\<close> that follow \<open>prevWord\<close>.\<close>

fun joinLoop :: "string \<Rightarrow> string list \<Rightarrow> string" where
  "joinLoop prevWord [] = []"
| "joinLoop prevWord (w # ws) =
     (if \<not> isPunctuation w \<and> \<not> isPunctuation prevWord then '' '' else []) @ w @ joinLoop w ws"

fun joinWords :: "string list \<Rightarrow> string" where
  "joinWords [] = []"
| "joinWords (w # ws) = w @ joinLoop w ws"

text \<open>The state of the \<^verbatim>\<open>for\<close> loop over the sorted corrections: the words from
  \<^verbatim>\<open>currentIndex\<close> on (the cursor is \<open>length originalWords - length remaining\<close>),
  \<^verbatim>\<open>mergedWords\<close>, and the two counters.\<close>

record mergeState =
  remaining :: "whisperWord list"
  mergedWords :: "string list"
  applied :: nat
  skipped :: nat

text \<open>One iteration. The first \<^verbatim>\<open>while\<close> pushes the words whose \<^verbatim>\<open>end <= clipStart\<close>
  and moves the cursor past them, the second moves it past the words whose
  \<^verbatim>\<open>start < clipEnd\<close>; both stop at the end of the list.\<close>

definition mergeStep :: "mergeState \<Rightarrow> correction \<Rightarrow> mergeState" where
  "mergeStep st c =
     (if \<not> c_shouldApply c then st\<lparr>skipped := skipped st + 1\<rparr>
      else
        let emitted = takeWhile (\<lambda>w. endt w \<le> c_clipStart c) (remaining st);
            rest = dropWhile (\<lambda>w. endt w \<le> c_clipStart c) (remaining st)
        in \<lparr>remaining = dropWhile (\<lambda>w. start w < c_clipEnd c) rest,
            mergedWords = mergedWords st @ map word emitted @ [c_correctedText c],
            applied = applied st + 1,
            skipped = skipped st\<rparr>)"

text \<open>\<^verbatim>\<open>[...corrections].sort((a, b) => a.clipStart - b.clipStart)\<close> is a stable sort
  by \<^verbatim>\<open>clipStart\<close>.\<close>

definition mergeTranscript :: "whisperWord list \<Rightarrow> correction list \<Rightarrow> mergedTranscript" where
  "mergeTranscript originalWords corrections =
     (if corrections = [] then
        \<lparr>text_m = joinSpace (map word originalWords),
         appliedCorrections = 0, skippedCorrections = 0\<rparr>
      else
        let sortedCorrections = sort_key c_clipStart corrections;
            st = foldl mergeStep
                   \<lparr>remaining = originalWords, mergedWords = [], applied = 0, skipped = 0\<rparr>
                   sortedCorrections
        in \<lparr>text_m = joinWords (mergedWords st @ map word (remaining st)),
            appliedCorrections = applied st,
            skippedCorrections = skipped st\<rparr>)"

section \<open>ClusteringService\<close>

text \<open>Decimal rendering of an array index inside a template literal.\<close>

function showNat :: "nat \<Rightarrow> string" where
  "showNat n = (if n < 10 then [char_of (48 + n)]
                else showNat (n div 10) @ [char_of (48 + n mod 10)])"
  by pat_completeness auto
termination
  by (relation "measure (\<lambda>n. n)") auto

declare showNat.simps [simp del]

text \<open>Step 2 of \<^verbatim>\<open>clusterLowConfidenceWords\<close>: the loop over
  \<^verbatim>\<open>lowConfidenceWords[1..]\<close> with its two variables \<^verbatim>\<open>rawClusters\<close> and
  \<^verbatim>\<open>currentCluster\<close>; the push after the loop is the base case.\<close>

fun groupLoop ::
  "real \<Rightarrow> whisperWord list list \<Rightarrow> whisperWord list \<Rightarrow> whisperWord list
     \<Rightarrow> whisperWord list list" where
  "groupLoop p rawClusters currentCluster [] = rawClusters @ [currentCluster]"
| "groupLoop p rawClusters currentCluster (currentWord # rest) =
     (if start currentWord - endt (last currentCluster) \<le> p
      then groupLoop p rawClusters (currentCluster @ [currentWord]) rest
      else groupLoop p (rawClusters @ [currentCluster]) [currentWord] rest)"

text \<open>Step 3: the callback of \<^verbatim>\<open>rawClusters.map\<close>. Every raw cluster holds at least one
  word (lemma \<open>rawClusters_members\<close> below), so \<^verbatim>\<open>clusterWords[0]\<close> and
  \<^verbatim>\<open>clusterWords[clusterWords.length - 1]\<close> are \<open>hd\<close> and \<open>last\<close>.\<close>

definition annotate :: "clusteringOptions \<Rightarrow> nat \<Rightarrow> whisperWord list \<Rightarrow> confidenceCluster" where
  "annotate opts index clusterWords =
     (let startTime' = start (hd clusterWords);
          endTime' = endt (last clusterWords);
          centerTime' = (startTime' + endTime') / 2;
          totalConfidence = foldl (\<lambda>sum w. sum + probability w) 0 clusterWords;
          averageConfidence' = totalConfidence / real (length clusterWords);
          halfWindow = correctionWindow opts / 2;
          clipStart' = max 0 (centerTime' - halfWindow);
          clipEnd' = centerTime' + halfWindow
      in \<lparr>cluster_id = ''cluster_'' @ showNat index,
          words = clusterWords,
          centerTime = centerTime',
          startTime = startTime',
          endTime = endTime',
          averageConfidence = averageConfidence',
          clipStart = clipStart',
          clipEnd = clipEnd'\<rparr>)"

text \<open>The object literal of the merge branch of \<^verbatim>\<open>mergeOverlappingClusters\<close>.\<close>

definition mergeTwo :: "confidenceCluster \<Rightarrow> confidenceCluster \<Rightarrow> confidenceCluster" where
  "mergeTwo current next =
     \<lparr>cluster_id = cluster_id current @ ''_'' @ cluster_id next,
      words = words current @ words next,
      centerTime = (centerTime current + centerTime next) / 2,
      startTime = min (startTime current) (startTime next),
      endTime = max (endTime current) (endTime next),
      averageConfidence =
        (averageConfidence current * real (length (words current)) +
         averageConfidence next * real (length (words next))) /
        real (length (words current) + length (words next)),
      clipStart = min (clipStart current) (clipStart next),
      clipEnd = max (clipEnd current) (clipEnd next)\<rparr>"

text \<open>The loop of \<^verbatim>\<open>mergeOverlappingClusters\<close> over \<^verbatim>\<open>clusters[1..]\<close> with its variables
  \<^verbatim>\<open>merged\<close> and \<^verbatim>\<open>current\<close>; the push after the loop is the base case.\<close>

fun mergeLoop ::
  "confidenceCluster list \<Rightarrow> confidenceCluster \<Rightarrow> confidenceCluster list
     \<Rightarrow> confidenceCluster list" where
  "mergeLoop merged current [] = merged @ [current]"
| "mergeLoop merged current (next # rest) =
     (if clipEnd current \<ge> clipStart next
      then mergeLoop merged (mergeTwo current next) rest
      else mergeLoop (merged @ [current]) next rest)"

text \<open>\<^verbatim>\<open>clusters[0]\<close> is read behind the guard \<^verbatim>\<open>clusters.length <= 1\<close>.\<close>

definition mergeOverlappingClusters :: "confidenceCluster list \<Rightarrow> confidenceCluster list" where
  "mergeOverlappingClusters clusters =
     (if length clusters \<le> 1 then clusters
      else mergeLoop [] (hd clusters) (tl clusters))"

text \<open>Steps 1 to 3 without the final merge: the value of \<^verbatim>\<open>clusters\<close> before
  \<^verbatim>\<open>mergeOverlappingClusters\<close> is called. \<open>rawClusters\<close> starts from
  \<^verbatim>\<open>[lowConfidenceWords[0]]\<close>; it is reached only behind the guard
  \<^verbatim>\<open>lowConfidenceWords.length === 0\<close>, on a non-empty list.\<close>

definition lowConfidenceWords :: "clusteringOptions \<Rightarrow> whisperWord list \<Rightarrow> whisperWord list" where
  "lowConfidenceWords opts ws = filter (\<lambda>w. probability w < confidenceThreshold opts) ws"

definition rawClusters :: "clusteringOptions \<Rightarrow> whisperWord list \<Rightarrow> whisperWord list list" where
  "rawClusters opts low = groupLoop (proximityThreshold opts) [] [hd low] (tl low)"

definition annotatedClusters ::
  "clusteringOptions \<Rightarrow> whisperWord list list \<Rightarrow> confidenceCluster list" where
  "annotatedClusters opts raw =
     map (\<lambda>(index, clusterWords). annotate opts index clusterWords) (enumerate 0 raw)"

definition clusterLowConfidenceWords ::
  "clusteringOptions \<Rightarrow> whisperWord list \<Rightarrow> confidenceCluster list" where
  "clusterLowConfidenceWords opts ws =
     (if length ws = 0 then []
      else if length (lowConfidenceWords opts ws) = 0 then []
      else mergeOverlappingClusters
             (annotatedClusters opts (rawClusters opts (lowConfidenceWords opts ws))))"

section \<open>ReconciliationService.cleanText and reconcile\<close>

text \<open>The character classes of the regular expressions, on code units 0..255:
  \<^verbatim>\<open>\s\<close> is tab, line feed, vertical tab, form feed, carriage return, space and the
  no-break space; \<^verbatim>\<open>\w\<close> is \<^verbatim>\<open>[A-Za-z0-9_]\<close>. \<^verbatim>\<open>trim\<close> removes the same characters as
  \<^verbatim>\<open>\s\<close> matches.\<close>

definition isSpaceChar :: "char \<Rightarrow> bool" where
  "isSpaceChar c = (let n = (of_char c :: nat) in (9 \<le> n \<and> n \<le> 13) \<or> n = 32 \<or> n = 160)"

definition isWordChar :: "char \<Rightarrow> bool" where
  "isWordChar c =
     (let n = (of_char c :: nat)
      in (48 \<le> n \<and> n \<le> 57) \<or> (65 \<le> n \<and> n \<le> 90) \<or> n = 95 \<or> (97 \<le> n \<and> n \<le> 122))"

text \<open>\<^verbatim>\<open>toLowerCase\<close> on code units 0..255: A to Z, and the Latin-1 capitals
  0xC0 to 0xDE without the multiplication sign 0xD7, move up by 32.\<close>

definition toLowerChar :: "char \<Rightarrow> char" where
  "toLowerChar c =
     (let n = (of_char c :: nat)
      in if (65 \<le> n \<and> n \<le> 90) \<or> (192 \<le> n \<and> n \<le> 222 \<and> n \<noteq> 215)
         then char_of (n + 32) else c)"

definition toLowerCase :: "string \<Rightarrow> string" where
  "toLowerCase s = map toLowerChar s"

text \<open>\<^verbatim>\<open>trim\<close> removes the whitespace at the start and at the end.\<close>

definition trimStart :: "string \<Rightarrow> string" where
  "trimStart s = dropWhile isSpaceChar s"

definition trimEnd :: "string \<Rightarrow> string" where
  "trimEnd s = rev (dropWhile isSpaceChar (rev s))"

definition trim :: "string \<Rightarrow> string" where
  "trim s = trimEnd (trimStart s)"

text \<open>\<^verbatim>\<open>.replace(/[^\w\s]/g, '')\<close>\<close>

definition removePunctuation :: "string \<Rightarrow> string" where
  "removePunctuation s = filter (\<lambda>c. isWordChar c \<or> isSpaceChar c) s"

text \<open>\<^verbatim>\<open>.replace(/\s+/g, ' ')\<close>: every maximal run of whitespace becomes one space.\<close>

function normalizeWhitespace :: "string \<Rightarrow> string" where
  "normalizeWhitespace [] = []"
| "normalizeWhitespace (c # cs) =
     (if isSpaceChar c then CHR '' '' # normalizeWhitespace (dropWhile isSpaceChar cs)
      else c # normalizeWhitespace cs)"
  by pat_completeness auto
termination
  by (relation "measure length") (auto simp: length_dropWhile_le less_Suc_eq_le)

text \<open>\<^verbatim>\<open>cleanText\<close>: trim, then lower-case, then the two replacements, in the order of
  the method chain.\<close>

definition cleanText :: "string \<Rightarrow> string" where
  "cleanText text = normalizeWhitespace (removePunctuation (toLowerCase (trim text)))"


text \<open>Modelled from the spec: \<^verbatim>\<open>levenshtein.get\<close> belongs to the package
  \<^verbatim>\<open>fast-levenshtein\<close>, which the sources import and do not contain. The specification
  calls it the classical Wagner-Fischer edit distance with insertion, deletion and
  substitution at cost 1 each; it is computed here row by row. \<open>levRow x b diag left ups\<close>
  fills the row of the character \<open>x\<close> from the row above.\<close>

fun initRow :: "nat \<Rightarrow> string \<Rightarrow> nat list" where
  "initRow k [] = [k]"
| "initRow k (y # ys) = k # initRow (k + 1) ys"

fun levRow :: "char \<Rightarrow> string \<Rightarrow> nat \<Rightarrow> nat \<Rightarrow> nat list \<Rightarrow> nat list" where
  "levRow x (y # ys) diag left (up # ups) =
     (let v = min (min (up + 1) (left + 1)) (diag + (if x = y then 0 else 1))
      in v # levRow x ys up v ups)"
| "levRow x _ diag left _ = []"

fun levStep :: "string \<Rightarrow> nat list \<Rightarrow> char \<Rightarrow> nat list" where
  "levStep b [] x = []"
| "levStep b (d # ups) x = (d + 1) # levRow x b d (d + 1) ups"

definition levenshtein :: "string \<Rightarrow> string \<Rightarrow> nat" where
  "levenshtein a b = last (foldl (levStep b) (initRow 0 b) a)"

text \<open>\<^verbatim>\<open>Number.prototype.toFixed(2)\<close> for a number below \<open>10^21\<close>: the integer \<open>n\<close>
  nearest to \<open>100 * x\<close> (the larger one on a tie), written in decimal with at least three
  digits and a point before the last two. \<^verbatim>\<open>reconcile\<close> calls it on a ratio between
  0.7 and 1.\<close>

definition toFixed2 :: "real \<Rightarrow> string" where
  "toFixed2 x =
     (let n = nat \<lfloor>\<bar>x\<bar> * 100 + 1 / 2\<rfloor>;
          m = showNat n;
          m' = (if length m \<le> 2 then replicate (3 - length m) (CHR ''0'') @ m else m);
          k = length m'
      in (if x < 0 then ''-'' else []) @ take (k - 2) m' @ ''.'' @ drop (k - 2) m')"

definition MAX_LEVENSHTEIN_RATIO :: real where
  "MAX_LEVENSHTEIN_RATIO = 0.7"

text \<open>The condition of the first branch of \<^verbatim>\<open>reconcile\<close>:
  \<^verbatim>\<open>!cleanedCorrection || cleanedCorrection === '[unintelligible]' || cleanedCorrection.length < 3\<close>.\<close>

definition emptyOrUnintelligible :: "string \<Rightarrow> bool" where
  "emptyOrUnintelligible cleanedCorrection \<longleftrightarrow>
     cleanedCorrection = [] \<or> cleanedCorrection = ''[unintelligible]'' \<or>
     length cleanedCorrection < 3"

definition wordsInWindow :: "whisperWord list \<Rightarrow> real \<Rightarrow> real \<Rightarrow> whisperWord list" where
  "wordsInWindow originalWords cStart cEnd =
     filter (\<lambda>w. start w \<ge> cStart \<and> endt w \<le> cEnd) originalWords"

text \<open>\<^verbatim>\<open>const ratio = maxLength > 0 ? distance / maxLength : 0\<close>\<close>

definition editRatio :: "string \<Rightarrow> string \<Rightarrow> real" where
  "editRatio cleanedOriginal cleanedCorrection =
     (let distance = levenshtein cleanedOriginal cleanedCorrection;
          maxLength = max (length cleanedOriginal) (length cleanedCorrection)
      in if maxLength > 0 then real distance / real maxLength else 0)"

definition reconcile ::
  "whisperWord list \<Rightarrow> string \<Rightarrow> real \<Rightarrow> real \<Rightarrow> reconciliationResult" where
  "reconcile originalWords corrected cStart cEnd =
     (let originalText' = joinSpace (map word (wordsInWindow originalWords cStart cEnd));
          cleanedCorrection = cleanText corrected;
          cleanedOriginal = cleanText originalText';
          distance = levenshtein cleanedOriginal cleanedCorrection;
          ratio = editRatio cleanedOriginal cleanedCorrection;
          decision =
            (if emptyOrUnintelligible cleanedCorrection
             then (False, Some ''Corrected text is empty or unintelligible'')
             else if ratio > MAX_LEVENSHTEIN_RATIO
             then (False, Some (''Levenshtein ratio too high: '' @ toFixed2 ratio))
             else if cleanedOriginal = cleanedCorrection
             then (False, Some ''No changes detected'')
             else (True, None))
      in \<lparr>success = True,
          originalText = originalText',
          correctedText = cleanedCorrection,
          levenshteinDistance = distance,
          shouldApply = fst decision,
          reason = snd decision\<rparr>)"

section \<open>Default options and inputs of the test suite\<close>




text \<open>The test ``should skip corrections marked as shouldApply: false''
  (tests/reconciliation.test.ts), and the same with a comma as a word of its own.\<close>

definition helloWorld :: "whisperWord list" where
  "helloWorld =
     [\<lparr>word = ''Hello'', start = 0, endt = 0.5, probability = 0.95\<rparr>,
      \<lparr>word = ''world'', start = 0.5, endt = 1.0, probability = 0.95\<rparr>]"

definition helloCommaWorld :: "whisperWord list" where
  "helloCommaWorld =
     [\<lparr>word = ''Hello'', start = 0, endt = 0.5, probability = 0.95\<rparr>,
      \<lparr>word = '','', start = 0.5, endt = 0.6, probability = 0.90\<rparr>,
      \<lparr>word = ''world'', start = 0.6, endt = 1.0, probability = 0.95\<rparr>]"

definition badCorrection :: correction where
  "badCorrection =
     \<lparr>c_clipStart = 0, c_clipEnd = 1.0, c_correctedText = ''bad correction'',
      c_shouldApply = False\<rparr>"

section \<open>Concrete evaluations and the response without words\<close>

text \<open>
  Claim C10. \<^verbatim>\<open>extractWords\<close> returns the empty list when the \<^verbatim>\<open>words\<close> field of the
  response is absent or \<^verbatim>\<open>null\<close>; the worker then writes no segment row and the
  clustering returns no cluster.
\<close>

theorem extractWords_without_words:
  assumes "words_r response = Absent \<or> words_r response = Null"
  shows "extractWords response = [] \<and>
         segmentRows jobId (extractWords response) = [] \<and>
         clusterLowConfidenceWords opts (extractWords response) = []"
  using assms by (auto simp: segmentRows_def clusterLowConfidenceWords_def)

theorem extractWords_without_words_witness:
  "(words_r \<lparr>text_r = ''hello'', words_r = Null, language = ''en'', duration = 2\<rparr> = Absent \<or>
    words_r \<lparr>text_r = ''hello'', words_r = Null, language = ''en'', duration = 2\<rparr> = Null) \<and>
   extractWords \<lparr>text_r = ''hello'', words_r = Null, language = ''en'', duration = 2\<rparr> = [] \<and>
   segmentRows ''job1''
     (extractWords \<lparr>text_r = ''hello'', words_r = Null, language = ''en'', duration = 2\<rparr>) = [] \<and>
   clusterLowConfidenceWords
     \<lparr>confidenceThreshold = 0.6, proximityThreshold = 5, correctionWindow = 20\<rparr>
     (extractWords \<lparr>text_r = ''hello'', words_r = Null, language = ''en'', duration = 2\<rparr>) = []"
proof -
  have h: "words_r \<lparr>text_r = ''hello'', words_r = Null, language = ''en'', duration = 2\<rparr> = Absent \<or>
           words_r \<lparr>text_r = ''hello'', words_r = Null, language = ''en'', duration = 2\<rparr> = Null"
    by simp
  show ?thesis
    using h extractWords_without_words [OF h, of "''job1''"
        "\<lparr>confidenceThreshold = 0.6, proximityThreshold = 5, correctionWindow = 20\<rparr>"]
    by simp
qed

text \<open>
  Claim C1, as stated: for the words Hello (0 to 0.5), mumbly (0.5 to 1.0), world
  (1.0 to 1.5) and the single accepted correction with window 0.3 to 1.2 and text
  ``beautiful'', \<^verbatim>\<open>mergeTranscript\<close> returns the text ``beautiful world'' with one applied
  correction. The code does not: the word ``world'' starts at 1.0, before the end 1.2
  of the window, so the second \<^verbatim>\<open>while\<close> moves the cursor past it as well.
\<close>

theorem mergeTranscript_scenario_counterexample:
  "\<not> (text_m (mergeTranscript
          [\<lparr>word = ''Hello'', start = 0, endt = 0.5, probability = 0.95\<rparr>,
           \<lparr>word = ''mumbly'', start = 0.5, endt = 1.0, probability = 0.45\<rparr>,
           \<lparr>word = ''world'', start = 1.0, endt = 1.5, probability = 0.95\<rparr>]
          [\<lparr>c_clipStart = 0.3, c_clipEnd = 1.2, c_correctedText = ''beautiful'',
            c_shouldApply = True\<rparr>]) = ''beautiful world''
      \<and> appliedCorrections (mergeTranscript
          [\<lparr>word = ''Hello'', start = 0, endt = 0.5, probability = 0.95\<rparr>,
           \<lparr>word = ''mumbly'', start = 0.5, endt = 1.0, probability = 0.45\<rparr>,
           \<lparr>word = ''world'', start = 1.0, endt = 1.5, probability = 0.95\<rparr>]
          [\<lparr>c_clipStart = 0.3, c_clipEnd = 1.2, c_correctedText = ''beautiful'',
            c_shouldApply = True\<rparr>]) = 1)"
  by (simp add: mergeTranscript_def mergeStep_def Let_def)

text \<open>
  Claim C1, amended: on that input \<^verbatim>\<open>mergeTranscript\<close> returns the text ``beautiful'',
  with one applied and no skipped correction.
\<close>

theorem mergeTranscript_scenario:
  "mergeTranscript
     [\<lparr>word = ''Hello'', start = 0, endt = 0.5, probability = 0.95\<rparr>,
      \<lparr>word = ''mumbly'', start = 0.5, endt = 1.0, probability = 0.45\<rparr>,
      \<lparr>word = ''world'', start = 1.0, endt = 1.5, probability = 0.95\<rparr>]
     [\<lparr>c_clipStart = 0.3, c_clipEnd = 1.2, c_correctedText = ''beautiful'',
       c_shouldApply = True\<rparr>]
   = \<lparr>text_m = ''beautiful'', appliedCorrections = 1, skippedCorrections = 0\<rparr>"
  by (simp add: mergeTranscript_def mergeStep_def Let_def isPunctuation_def punctChars_def)

section \<open>Properties of reconcile\<close>

text \<open>
  Claim C2 says that the candidate \<^verbatim>\<open>[unintelligible]\<close> is always rejected with a reason
  that contains ``empty or unintelligible''. \<^verbatim>\<open>cleanText\<close> removes the two brackets
  before the comparison with \<^verbatim>\<open>'[unintelligible]'\<close>, so the first branch is not taken.
  On the input of the repository's own test (one word ``test'', window 0 to 0.5) the
  candidate is rejected by the ratio check instead, with another reason; with the word
  ``intelligible'' in the window it is accepted.
\<close>

theorem reconcile_unintelligible_evaluated:
  "reconcile [\<lparr>word = ''test'', start = 0, endt = 0.5, probability = 0.45\<rparr>]
     ''[unintelligible]'' 0 0.5
   = \<lparr>success = True, originalText = ''test'', correctedText = ''unintelligible'',
      levenshteinDistance = 12, shouldApply = False,
      reason = Some ''Levenshtein ratio too high: 0.86''\<rparr>
   \<and> \<not> str_includes ''Levenshtein ratio too high: 0.86'' ''empty or unintelligible''
   \<and> reconcile [\<lparr>word = ''intelligible'', start = 0, endt = 0.5, probability = 0.45\<rparr>]
        ''[unintelligible]'' 0 0.5
      = \<lparr>success = True, originalText = ''intelligible'', correctedText = ''unintelligible'',
         levenshteinDistance = 2, shouldApply = True, reason = None\<rparr>"
  by code_simp

text \<open>
  Claim C5. Whenever the cleaned candidate is not rejected as empty or unintelligible and
  the edit ratio, the distance divided by the larger of the two cleaned lengths, exceeds
  0.70, \<^verbatim>\<open>reconcile\<close> returns \<^verbatim>\<open>shouldApply = false\<close> with a reason that contains
  ``Levenshtein''.
\<close>

theorem reconcile_rejects_high_ratio:
  assumes "\<not> emptyOrUnintelligible (cleanText corrected)"
    and "real (levenshtein
                 (cleanText (joinSpace (map word (wordsInWindow originalWords cStart cEnd))))
                 (cleanText corrected))
         / real (max (length (cleanText (joinSpace (map word
                                (wordsInWindow originalWords cStart cEnd)))))
                     (length (cleanText corrected)))
         > 0.70"
  shows "shouldApply (reconcile originalWords corrected cStart cEnd) = False \<and>
         (\<exists>r. reason (reconcile originalWords corrected cStart cEnd) = Some r \<and>
              str_includes r ''Levenshtein'')"
proof -
  let ?co = "cleanText (joinSpace (map word (wordsInWindow originalWords cStart cEnd)))"
  let ?cc = "cleanText corrected"
  have pos: "0 < max (length ?co) (length ?cc)"
  proof (rule ccontr)
    assume "\<not> 0 < max (length ?co) (length ?cc)"
    then have "max (length ?co) (length ?cc) = 0" by simp
    with assms(2) show False by simp
  qed
  have ratio: "editRatio ?co ?cc > MAX_LEVENSHTEIN_RATIO"
    using assms(2) pos by (simp add: editRatio_def MAX_LEVENSHTEIN_RATIO_def Let_def)
  have r: "reason (reconcile originalWords corrected cStart cEnd)
           = Some (''Levenshtein ratio too high: '' @ toFixed2 (editRatio ?co ?cc))"
    using assms(1) ratio by (simp add: reconcile_def Let_def)
  have s: "shouldApply (reconcile originalWords corrected cStart cEnd) = False"
    using assms(1) ratio by (simp add: reconcile_def Let_def)
  have "str_includes (''Levenshtein'' @ '' ratio too high: '' @ toFixed2 (editRatio ?co ?cc))
          ''Levenshtein''"
    by (rule sublist_append_rightI)
  then have "str_includes (''Levenshtein ratio too high: '' @ toFixed2 (editRatio ?co ?cc))
          ''Levenshtein''"
    by simp
  with r s show ?thesis by blast
qed

theorem reconcile_rejects_high_ratio_witness:
  "\<not> emptyOrUnintelligible (cleanText ''Completely different sentence with no relation'') \<and>
   real (levenshtein
           (cleanText (joinSpace (map word (wordsInWindow
              [\<lparr>word = ''The'', start = 0, endt = 0.3, probability = 0.95\<rparr>,
               \<lparr>word = ''red'', start = 0.3, endt = 0.6, probability = 0.45\<rparr>,
               \<lparr>word = ''fox'', start = 0.6, endt = 1.0, probability = 0.90\<rparr>] 0 1.0))))
           (cleanText ''Completely different sentence with no relation''))
     / real (max (length (cleanText (joinSpace (map word (wordsInWindow
              [\<lparr>word = ''The'', start = 0, endt = 0.3, probability = 0.95\<rparr>,
               \<lparr>word = ''red'', start = 0.3, endt = 0.6, probability = 0.45\<rparr>,
               \<lparr>word = ''fox'', start = 0.6, endt = 1.0, probability = 0.90\<rparr>] 0 1.0)))))
                 (length (cleanText ''Completely different sentence with no relation'')))
     > 0.70 \<and>
   shouldApply (reconcile
              [\<lparr>word = ''The'', start = 0, endt = 0.3, probability = 0.95\<rparr>,
               \<lparr>word = ''red'', start = 0.3, endt = 0.6, probability = 0.45\<rparr>,
               \<lparr>word = ''fox'', start = 0.6, endt = 1.0, probability = 0.90\<rparr>]
              ''Completely different sentence with no relation'' 0 1.0) = False \<and>
   (\<exists>r. reason (reconcile
              [\<lparr>word = ''The'', start = 0, endt = 0.3, probability = 0.95\<rparr>,
               \<lparr>word = ''red'', start = 0.3, endt = 0.6, probability = 0.45\<rparr>,
               \<lparr>word = ''fox'', start = 0.6, endt = 1.0, probability = 0.90\<rparr>]
              ''Completely different sentence with no relation'' 0 1.0) = Some r \<and>
        str_includes r ''Levenshtein'')"
proof -
  have h1: "\<not> emptyOrUnintelligible
               (cleanText ''Completely different sentence with no relation'')"
    by code_simp
  have h2: "real (levenshtein
           (cleanText (joinSpace (map word (wordsInWindow
              [\<lparr>word = ''The'', start = 0, endt = 0.3, probability = 0.95\<rparr>,
               \<lparr>word = ''red'', start = 0.3, endt = 0.6, probability = 0.45\<rparr>,
               \<lparr>word = ''fox'', start = 0.6, endt = 1.0, probability = 0.90\<rparr>] 0 1.0))))
           (cleanText ''Completely different sentence with no relation''))
     / real (max (length (cleanText (joinSpace (map word (wordsInWindow
              [\<lparr>word = ''The'', start = 0, endt = 0.3, probability = 0.95\<rparr>,
               \<lparr>word = ''red'', start = 0.3, endt = 0.6, probability = 0.45\<rparr>,
               \<lparr>word = ''fox'', start = 0.6, endt = 1.0, probability = 0.90\<rparr>] 0 1.0)))))
                 (length (cleanText ''Completely different sentence with no relation'')))
     > 0.70"
    by code_simp
  from reconcile_rejects_high_ratio [OF h1 h2] h1 h2 show ?thesis
    by blast
qed

section \<open>Merging when every correction is skipped\<close>

lemma mergeStep_skip:
  "\<not> c_shouldApply c \<Longrightarrow> mergeStep st c = st\<lparr>skipped := skipped st + 1\<rparr>"
  by (simp add: mergeStep_def)

lemma foldl_mergeStep_all_skipped:
  "\<forall>c \<in> set cs. \<not> c_shouldApply c \<Longrightarrow>
   foldl mergeStep st cs = st\<lparr>skipped := skipped st + length cs\<rparr>"
proof (induction cs arbitrary: st)
  case Nil
  show ?case by simp
next
  case (Cons c cs)
  then show ?case by (simp add: mergeStep_skip)
qed

lemma joinLoop_no_punctuation:
  "\<not> isPunctuation v \<Longrightarrow> \<forall>w \<in> set ws. \<not> isPunctuation w \<Longrightarrow>
   v @ joinLoop v ws = joinSpace (v # ws)"
proof (induction ws arbitrary: v)
  case Nil
  show ?case by simp
next
  case (Cons w ws)
  from Cons.prems have "w @ joinLoop w ws = joinSpace (w # ws)"
    by (intro Cons.IH) simp_all
  with Cons.prems show ?case by simp
qed

lemma joinWords_no_punctuation:
  "\<forall>w \<in> set ws. \<not> isPunctuation w \<Longrightarrow> joinWords ws = joinSpace ws"
  by (cases ws) (simp_all add: joinLoop_no_punctuation)

text \<open>
  Claim C3, as stated: when every correction has \<^verbatim>\<open>shouldApply = false\<close>, the merged text
  is the original words joined with a single space between each adjacent pair. With a
  non-empty list of corrections the words go through \<^verbatim>\<open>joinWords\<close>, which puts no space
  next to a word that is pure punctuation: ``Hello'', ``,'', ``world'' with one skipped
  correction give ``Hello,world'', not ``Hello , world''.
\<close>

theorem mergeTranscript_all_skipped_counterexample:
  "text_m (mergeTranscript helloCommaWorld [badCorrection])
     \<noteq> joinSpace (map word helloCommaWorld)"
  by (simp add: mergeTranscript_def mergeStep_def Let_def isPunctuation_def punctChars_def
      helloCommaWorld_def badCorrection_def)

text \<open>
  Claim C3, amended: when every correction has \<^verbatim>\<open>shouldApply = false\<close>, the merged text is
  the original words joined by \<^verbatim>\<open>joinWords\<close> (a single space between adjacent words unless
  one of the two is pure punctuation), and by a plain single-space join when the list of
  corrections is empty; hence it equals the single-space join whenever no original word
  is pure punctuation.
\<close>

theorem mergeTranscript_all_skipped:
  assumes "\<forall>c \<in> set corrections. \<not> c_shouldApply c"
  shows "text_m (mergeTranscript originalWords corrections) =
           (if corrections = [] then joinSpace (map word originalWords)
            else joinWords (map word originalWords)) \<and>
         ((\<forall>w \<in> set originalWords. \<not> isPunctuation (word w)) \<longrightarrow>
            text_m (mergeTranscript originalWords corrections) =
              joinSpace (map word originalWords))"
proof -
  have skip: "\<forall>c \<in> set (sort_key c_clipStart corrections). \<not> c_shouldApply c"
    using assms by simp
  have t: "text_m (mergeTranscript originalWords corrections) =
           (if corrections = [] then joinSpace (map word originalWords)
            else joinWords (map word originalWords))"
    by (simp add: mergeTranscript_def Let_def foldl_mergeStep_all_skipped [OF skip])
  have "joinWords (map word originalWords) = joinSpace (map word originalWords)"
    if "\<forall>w \<in> set originalWords. \<not> isPunctuation (word w)"
    using that by (intro joinWords_no_punctuation) simp
  with t show ?thesis by simp
qed

theorem mergeTranscript_all_skipped_witness:
  "\<not> c_shouldApply badCorrection \<and>
   \<not> isPunctuation ''Hello'' \<and> \<not> isPunctuation ''world'' \<and>
   text_m (mergeTranscript helloWorld [badCorrection]) = joinSpace (map word helloWorld) \<and>
   joinSpace (map word helloWorld) = ''Hello world''"
proof -
  have s: "\<not> c_shouldApply badCorrection"
    by (simp add: badCorrection_def)
  have p: "\<not> isPunctuation ''Hello''" "\<not> isPunctuation ''world''"
    by (simp_all add: isPunctuation_def punctChars_def)
  have h1: "\<forall>c \<in> set [badCorrection]. \<not> c_shouldApply c"
    using s by simp
  have h2: "\<forall>w \<in> set helloWorld. \<not> isPunctuation (word w)"
    using p by (simp add: helloWorld_def)
  have j: "joinSpace (map word helloWorld) = ''Hello world''"
    by (simp add: helloWorld_def)
  have "text_m (mergeTranscript helloWorld [badCorrection]) = joinSpace (map word helloWorld)"
    using mergeTranscript_all_skipped [OF h1, of helloWorld] h2 by blast
  with s p j show ?thesis by (intro conjI)
qed

section \<open>Properties of the clustering\<close>

subsection \<open>Averages\<close>





subsection \<open>The grouping loop\<close>





subsection \<open>The annotated clusters\<close>

lemma annotatedClusters_conv:
  "annotatedClusters opts raw = map (\<lambda>(i, g). annotate opts i g) (zip [0..<length raw] raw)"
  by (simp add: annotatedClusters_def enumerate_eq_zip)




subsection \<open>The merging loop\<close>







subsection \<open>One cluster per isolated word\<close>








subsection \<open>Proper and separated windows\<close>





section \<open>Properties of cleanText\<close>

subsection \<open>Characters\<close>




subsection \<open>Trimming\<close>







subsection \<open>Whitespace runs at the ends\<close>










subsection \<open>Agreement with the reference definition\<close>










end
